theory Spec2Isabelle
  imports Main "HOL-Library.Sublist"
begin

section \<open>JavaScript values\<close>

text \<open>
  Primitive values: what a field of a state snapshot holds (the broadcast payload is typed
  \<open>{selectedAddress?: string, networkVersion?: string, isUnlocked?: bool}\<close>; \<open>null\<close> and
  \<open>undefined\<close> are what a peer sends to clear a field). On primitives the operator
  \<open>!==\<close> compares by value, so it is HOL inequality.
\<close>

datatype prim = Undefined | Null | Bool bool | Num int | Str string

datatype jsval = P prim | Arr "jsval list" | Obj "(string \<times> jsval) list"

text \<open>Truthiness, as \<open>if (v)\<close>, \<open>v ? a : b\<close>, \<open>v || w\<close> and \<open>v && w\<close> test it.\<close>

fun truthy_prim :: "prim \<Rightarrow> bool" where
  "truthy_prim Undefined = False"
| "truthy_prim Null = False"
| "truthy_prim (Bool b) = b"
| "truthy_prim (Num n) = (n \<noteq> 0)"
| "truthy_prim (Str s) = (s \<noteq> [])"

fun truthy :: "jsval \<Rightarrow> bool" where
  "truthy (P p) = truthy_prim p"
| "truthy (Arr _) = True"
| "truthy (Obj _) = True"

text \<open>\<open>k in o\<close> and \<open>o.k\<close> for an object given by its own enumerable properties.\<close>

definition has_key :: "(string \<times> 'v) list \<Rightarrow> string \<Rightarrow> bool" where
  "has_key kvs k = (map_of kvs k \<noteq> None)"

definition field :: "(string \<times> prim) list \<Rightarrow> string \<Rightarrow> prim" where
  "field kvs k = (case map_of kvs k of None \<Rightarrow> Undefined | Some v \<Rightarrow> v)"

text \<open>
  \<open>v.k\<close> for a value that is neither \<open>null\<close> nor \<open>undefined\<close> (there the access
  throws, which the callers below write out): a missing property reads as \<open>undefined\<close>.
\<close>

fun get_prop :: "jsval \<Rightarrow> string \<Rightarrow> jsval" where
  "get_prop (Obj kvs) k = (case map_of kvs k of None \<Rightarrow> P Undefined | Some v \<Rightarrow> v)"
| "get_prop _ k = P Undefined"

section \<open>State of the module and of a provider\<close>

text \<open>The two module-level variables \<open>let isEnabled = false\<close>, \<open>let isConnected = false\<close>.\<close>

record module_vars =
  isEnabled :: bool
  isConnected :: bool

definition module_init :: module_vars where
  "module_init = \<lparr>isEnabled = False, isConnected = False\<rparr>"

type_synonym snapshot = "(string \<times> prim) list"

text \<open>
  A JSON-RPC payload: \<open>rpc_method\<close> is its \<open>method\<close>, a string, and \<open>params\<close> a value, as the
  request format has them; \<open>extra\<close> holds every other property (\<open>id\<close>, \<open>jsonrpc\<close>, \<open>beta\<close>, ...).
\<close>

record payload =
  rpc_method :: string
  params :: jsval
  extra :: "(string \<times> jsval) list"

text \<open>
  The callbacks this file hands to \<open>rpcEngine.handle\<close>: \<open>noop\<close>, the closures of
  \<open>enable\<close> and \<open>getAccounts\<close> (each settles the promise it was created in, named by its
  index), and a callback supplied by the application.
\<close>

datatype callback = Noop | EnableCb nat | GetAccountsCb nat | AppCb nat

text \<open>
  A promise is settled at most once. \<open>Follows q\<close> is the state of the promise of
  \<open>enable\<close> after \<open>getAccounts(...).then(resolve).catch(reject)\<close>: it takes the outcome
  of promise \<open>q\<close>.
\<close>

datatype promise = Pending | Resolved jsval | Rejected jsval | Follows nat

text \<open>
  What \<open>receive\<close> is handed: a string that is the JSON text of a value, a string that is
  not JSON, or a plain object (the notification object of the JSON-RPC stream).
\<close>

datatype message = JsonText jsval | OtherText string | Envelope "(string \<times> jsval) list"

datatype event =
    Connect
  | AccountsChanged "prim list"
  | NetworkChanged prim
  | Data prim message
  | Notification jsval
  | ErrorEvent string

text \<open>
  The object \<open>emit\<close> is called on: \<open>self\<close> (the provider), or the \<open>this\<close> of the
  function passed to \<open>publicConfigStore.subscribe\<close>, which the store chooses.
\<close>

datatype receiver = Self | HandlerThis

type_synonym emission = "receiver \<times> event"

record provider =
  selectedAddress :: prim
  networkVersion :: prim
  publicConfigStore :: snapshot
  errorListeners :: nat
  dataListeners :: nat
  pending :: "(payload \<times> callback) list"
  promises :: "promise list"

type_synonym world = "module_vars \<times> provider"

text \<open>
  The constructor: both mirrored fields start \<open>undefined\<close>, the store is created with the
  state \<open>{storageKey: 'MetaMask-Config'}\<close>, nothing is pending. It does not touch the
  module-level variables.
\<close>

definition MetamaskInpageProvider :: provider where
  "MetamaskInpageProvider =
     \<lparr>selectedAddress = Undefined, networkVersion = Undefined,
      publicConfigStore = [(''storageKey'', Str ''MetaMask-Config'')],
      errorListeners = 0, dataListeners = 0, pending = [], promises = []\<rparr>"

section \<open>The state mirror\<close>

text \<open>The function passed to \<open>publicConfigStore.subscribe\<close>.\<close>

definition handler :: "snapshot \<Rightarrow> world \<Rightarrow> world \<times> emission list" where
  "handler state = (\<lambda>(m, self).
     let (m1, e1) =
           (if \<not> isConnected m
            then (m\<lparr>isConnected := True\<rparr>, [(HandlerThis, Connect)])
            else (m, []));
         (self1, e2) =
           (if has_key state ''selectedAddress''
               \<and> field state ''selectedAddress'' \<noteq> selectedAddress self
            then (self\<lparr>selectedAddress := field state ''selectedAddress''\<rparr>,
                  [(Self, AccountsChanged [field state ''selectedAddress''])])
            else (self, []));
         (self2, e3) =
           (if has_key state ''networkVersion''
               \<and> field state ''networkVersion'' \<noteq> networkVersion self1
            then (self1\<lparr>networkVersion := field state ''networkVersion''\<rparr>,
                  [(Self, NetworkChanged (field state ''networkVersion''))])
            else (self1, []))
     in ((m1, self2), e1 @ e2 @ e3))"

text \<open>
  A snapshot arriving on the \<open>publicConfig\<close> channel is written to the store
  (\<open>asStream\<close> calls \<open>putState\<close>, which replaces the state), and the store then calls
  its subscribers with it.
\<close>

definition deliver :: "snapshot \<Rightarrow> world \<Rightarrow> world \<times> emission list" where
  "deliver state = (\<lambda>(m, self). handler state (m, self\<lparr>publicConfigStore := state\<rparr>))"

fun run_snapshots :: "snapshot list \<Rightarrow> world \<Rightarrow> world \<times> emission list" where
  "run_snapshots [] w = (w, [])"
| "run_snapshots (s # ss) w =
     (let (w1, e) = deliver s w; (w2, es) = run_snapshots ss w1 in (w2, e @ es))"

text \<open>The events emitted on one object, in order.\<close>

definition emitted_on :: "receiver \<Rightarrow> emission list \<Rightarrow> event list" where
  "emitted_on rcv es = map snd (filter (\<lambda>(r, e). r = rcv) es)"



section \<open>Calls\<close>

text \<open>
  \<open>rpcEngine.handle(payload, cb)\<close>: the engine (a dependency) sends the request and keeps
  the callback until the response arrives; until then the call is pending.
\<close>

definition rpcEngine_handle :: "payload \<Rightarrow> callback \<Rightarrow> world \<Rightarrow> world" where
  "rpcEngine_handle payload cb = (\<lambda>(m, self). (m, self\<lparr>pending := pending self @ [(payload, cb)]\<rparr>))"

definition defaultOpts :: payload where
  "defaultOpts =
     \<lparr>rpc_method = ''wallet_requestPermissions'',
      params = Arr [Obj [(''eth_accounts'', Obj [])]],
      extra = []\<rparr>"

text \<open>
  \<open>extend(opts, defaultOpts)\<close>, the function of the package \<open>xtend\<close>: the properties of
  \<open>opts\<close>, overwritten by those of the second object (for \<open>defaultOpts\<close>: \<open>method\<close> and
  \<open>params\<close>).
\<close>

definition xtend :: "(string \<times> jsval) list \<Rightarrow> payload \<Rightarrow> payload" where
  "xtend opts d =
     d\<lparr>extra := extra d @ filter (\<lambda>(k, v). k \<noteq> ''method'' \<and> k \<noteq> ''params'') opts\<rparr>"

text \<open>
  \<open>sendAsync\<close> returns the promise of \<open>enable\<close> for \<open>eth_requestAccounts\<close> (the callback
  is then dropped) and \<open>undefined\<close> otherwise; \<open>enable\<close> returns the index of its new
  promise.
\<close>

function sendAsync :: "payload \<Rightarrow> callback \<Rightarrow> world \<Rightarrow> world \<times> nat option"
  and enable :: "(string \<times> jsval) list \<Rightarrow> world \<Rightarrow> world \<times> nat" where
  "sendAsync payload cb w =
     (if rpc_method payload = ''eth_requestAccounts''
      then (let (w1, p) = enable [] w in (w1, Some p))
      else (rpcEngine_handle payload cb w, None))"
| "enable opts (m, self) =
     (let p = length (promises self);
          self1 = self\<lparr>promises := promises self @ [Pending]\<rparr>;
          options = xtend opts defaultOpts;
          (w1, r) = sendAsync options (EnableCb p) (m, self1)
      in (w1, p))"
  by pat_completeness auto
termination
  by (relation "measure (\<lambda>x. case x of
        Inl (payload, cb, w) \<Rightarrow> (if rpc_method payload = ''eth_requestAccounts'' then 2 else 0)
      | Inr (opts, w) \<Rightarrow> 1)")
     (auto simp: xtend_def defaultOpts_def)

text \<open>\<open>getAccounts\<close>: a new promise and an \<open>eth_accounts\<close> call whose callback settles it.\<close>

definition getAccounts :: "world \<Rightarrow> world \<times> nat" where
  "getAccounts = (\<lambda>(m, self).
     let q = length (promises self);
         self1 = self\<lparr>promises := promises self @ [Pending]\<rparr>;
         (w1, r) = sendAsync \<lparr>rpc_method = ''eth_accounts'', params = Arr [], extra = []\<rparr>
                     (GetAccountsCb q) (m, self1)
     in (w1, q))"

text \<open>
  \<open>resolve\<close> and \<open>reject\<close> of promise \<open>p\<close>: only the first call has an effect. A promise
  that follows another one has not had its \<open>resolve\<close> or \<open>reject\<close> called yet.
\<close>

fun unsettled :: "promise \<Rightarrow> bool" where
  "unsettled Pending = True"
| "unsettled (Follows q) = True"
| "unsettled (Resolved v) = False"
| "unsettled (Rejected v) = False"

definition settle :: "nat \<Rightarrow> promise \<Rightarrow> provider \<Rightarrow> provider" where
  "settle p v self =
     (if p < length (promises self) \<and> unsettled (promises self ! p)
      then self\<lparr>promises := (promises self)[p := v]\<rparr> else self)"

datatype exn = Error string | TypeError

text \<open>
  The callback of \<open>enable\<close>, called by the engine with \<open>(err, res)\<close>. Reading \<open>res.error\<close>
  of an absent \<open>res\<close> throws. On success the promise is settled by the promise of
  \<open>getAccounts\<close>, when that one is.
\<close>

definition enable_callback :: "nat \<Rightarrow> jsval \<Rightarrow> jsval \<Rightarrow> world \<Rightarrow> world \<times> exn option" where
  "enable_callback p err res = (\<lambda>(m, self).
     if truthy err then ((m, settle p (Rejected err) self), None)
     else if res = P Undefined \<or> res = P Null then ((m, self), Some TypeError)
     else if truthy (get_prop res ''error'')
             \<and> get_prop (get_prop res ''error'') ''code'' = P (Num 5)
       then ((m, settle p (Rejected (get_prop res ''error'')) self), None)
     else if truthy (get_prop res ''error'')
       then ((m, settle p (Rejected (Obj [(''message'', get_prop res ''error''),
                                          (''code'', P (Num 4001))])) self), None)
     else (let (w1, q) = getAccounts (m\<lparr>isEnabled := True\<rparr>, self)
           in ((fst w1, settle p (Follows q) (snd w1)), None)))"

text \<open>A promise that follows promise \<open>q\<close> takes its outcome once \<open>q\<close> has one.\<close>

definition follow :: "nat \<Rightarrow> provider \<Rightarrow> provider" where
  "follow q self =
     (if q < length (promises self) \<and> \<not> unsettled (promises self ! q)
      then self\<lparr>promises := map (\<lambda>x. if x = Follows q then promises self ! q else x) (promises self)\<rparr>
      else self)"

definition getAccounts_callback :: "nat \<Rightarrow> jsval \<Rightarrow> jsval \<Rightarrow> world \<Rightarrow> world \<times> exn option" where
  "getAccounts_callback q error response = (\<lambda>(m, self).
     let self1 = (if truthy error then settle q (Rejected error) self else self)
     in if response = P Undefined \<or> response = P Null
        then ((m, follow q self1), Some TypeError)
        else (let self2 = (if truthy (get_prop response ''error'')
                           then settle q (Rejected (get_prop response ''error'')) self1
                           else self1);
                  self3 = settle q (Resolved (get_prop response ''result'')) self2
              in ((m, follow q self3), None)))"

text \<open>The engine calling a callback; what an application callback does is not part of this file.\<close>

fun invoke :: "callback \<Rightarrow> jsval \<Rightarrow> jsval \<Rightarrow> world \<Rightarrow> world \<times> exn option" where
  "invoke Noop err res w = (w, None)"
| "invoke (EnableCb p) err res w = enable_callback p err res w"
| "invoke (GetAccountsCb q) err res w = getAccounts_callback q err res w"
| "invoke (AppCb n) err res w = (w, None)"

section \<open>The synchronous facade\<close>

record response =
  res_id :: jsval
  res_jsonrpc :: jsval
  result :: jsval

definition link :: string where
  "link = ''https://github.com/MetaMask/faq/blob/master/DEVELOPERS.md#dizzy-all-async---think-of-metamask-as-a-light-client''"

definition respond :: "payload \<Rightarrow> jsval \<Rightarrow> response" where
  "respond payload r =
     \<lparr>res_id = get_prop (Obj (extra payload)) ''id'',
      res_jsonrpc = get_prop (Obj (extra payload)) ''jsonrpc'',
      result = r\<rparr>"

text \<open>\<open>_sendSync\<close>: the \<open>switch\<close> on \<open>payload.method\<close>; the \<open>throw\<close> is the left injection.\<close>

definition sendSync :: "payload \<Rightarrow> world \<Rightarrow> exn + (response \<times> world)" where
  "sendSync payload = (\<lambda>(m, self).
     if rpc_method payload = ''eth_accounts'' then
       (let selectedAddress = field (publicConfigStore self) ''selectedAddress''
        in Inr (respond payload
                  (if truthy_prim selectedAddress then Arr [P selectedAddress] else Arr []),
                (m, self)))
     else if rpc_method payload = ''eth_coinbase'' then
       (let selectedAddress = field (publicConfigStore self) ''selectedAddress''
        in Inr (respond payload
                  (if truthy_prim selectedAddress then P selectedAddress else P Null),
                (m, self)))
     else if rpc_method payload = ''eth_uninstallFilter'' then
       Inr (respond payload (P (Bool True)), fst (sendAsync payload Noop (m, self)))
     else if rpc_method payload = ''net_version'' then
       (let networkVersion = field (publicConfigStore self) ''networkVersion''
        in Inr (respond payload
                  (if truthy_prim networkVersion then P networkVersion else P Null),
                (m, self)))
     else
       Inl (Error (''The MetaMask Web3 object does not support synchronous methods like ''
                   @ rpc_method payload @ '' without a callback parameter. See '' @ link
                   @ '' for details.'')))"

section \<open>Notifications\<close>

text \<open>\<open>_subscribe\<close> installs one more listener for \<open>data\<close>.\<close>

definition subscribe :: "world \<Rightarrow> world" where
  "subscribe = (\<lambda>(m, self). (m, self\<lparr>dataListeners := Suc (dataListeners self)\<rparr>))"

text \<open>A property of the second argument of a \<open>data\<close> event; a string has neither \<open>method\<close> nor \<open>params\<close>.\<close>

fun message_prop :: "message \<Rightarrow> string \<Rightarrow> jsval" where
  "message_prop (JsonText v) k = P Undefined"
| "message_prop (OtherText s) k = P Undefined"
| "message_prop (Envelope kvs) k = get_prop (Obj kvs) k"

text \<open>
  The listener of \<open>_subscribe\<close>, \<open>(error, {method, params}) => ...\<close>. Reading
  \<open>params.result\<close> of an absent \<open>params\<close> throws inside the listener: nothing is emitted.
\<close>

definition data_listener :: "prim \<Rightarrow> message \<Rightarrow> emission list" where
  "data_listener error message =
     (let method = message_prop message ''method'';
          params = message_prop message ''params''
      in if \<not> truthy_prim error \<and> method = P (Str ''eth_subscription'')
         then (if params = P Undefined \<or> params = P Null then []
               else [(Self, Notification (get_prop params ''result''))])
         else [])"

text \<open>\<open>this.emit('data', error, message)\<close>: the event, then each installed listener.\<close>

definition emit_data :: "prim \<Rightarrow> message \<Rightarrow> provider \<Rightarrow> emission list" where
  "emit_data error message self =
     (Self, Data error message) # concat (replicate (dataListeners self) (data_listener error message))"

text \<open>
  \<open>receive\<close>: \<open>JSON.parse(message)\<close> throws on a string that is not JSON and on a plain
  object (whose string is \<open>[object Object]\<close>); \<open>data.method\<close> throws when the parsed value
  is \<open>null\<close>. The \<open>catch\<close> swallows all of these.
\<close>

definition receive :: "message \<Rightarrow> world \<Rightarrow> world \<times> emission list" where
  "receive message = (\<lambda>(m, self).
     case message of
       JsonText data \<Rightarrow>
         (if data = P Null \<or> data = P Undefined then ((m, self), [])
          else if truthy (get_prop data ''method'')
                  \<and> get_prop data ''method'' = P (Str ''eth_subscription'')
          then ((m, self), emit_data Null message self)
          else ((m, self), []))
     | OtherText s \<Rightarrow> ((m, self), [])
     | Envelope kvs \<Rightarrow> ((m, self), []))"

section \<open>Disconnection and the flags\<close>

text \<open>
  \<open>logStreamDisconnectWarning\<close>, bound to the provider; \<open>err\<close> is the stack of the error,
  if there is one.
\<close>

definition logStreamDisconnectWarning :: "string \<Rightarrow> string option \<Rightarrow> world \<Rightarrow> world \<times> emission list" where
  "logStreamDisconnectWarning remoteLabel err = (\<lambda>(m, self).
     let warningMsg = ''MetamaskInpageProvider - lost connection to '' @ remoteLabel
                      @ (case err of None \<Rightarrow> [] | Some stack \<Rightarrow> CHR 0x0A # stack)
     in ((m\<lparr>isConnected := False\<rparr>, self),
         if errorListeners self > 0 then [(Self, ErrorEvent warningMsg)] else []))"



section \<open>Several providers in one process\<close>








section \<open>Scenarios\<close>

text \<open>Two calls an application makes, and two messages a peer sends.\<close>

definition call_a :: payload where
  "call_a = \<lparr>rpc_method = ''eth_blockNumber'', params = Arr [], extra = [(''id'', P (Num 1))]\<rparr>"

definition call_b :: payload where
  "call_b = \<lparr>rpc_method = ''eth_gasPrice'', params = Arr [], extra = [(''id'', P (Num 2))]\<rparr>"

text \<open>The response \<open>{error: {code: 5, message: 'User rejected'}}\<close>.\<close>

definition user_rejected :: jsval where
  "user_rejected =
     Obj [(''error'', Obj [(''code'', P (Num 5)), (''message'', P (Str ''User rejected''))])]"

text \<open>
  The string
  \<open>{"jsonrpc":"2.0","method":"eth_subscription","params":{"subscription":"0x1","result":"0xabc"}}\<close>.
\<close>

definition subscription_push :: message where
  "subscription_push =
     JsonText (Obj [(''jsonrpc'', P (Str ''2.0'')), (''method'', P (Str ''eth_subscription'')),
                    (''params'', Obj [(''subscription'', P (Str ''0x1'')),
                                      (''result'', P (Str ''0xabc''))])])"

section \<open>What one snapshot does\<close>

lemma handler_events:
  "snd (handler state (m, self)) =
     (if \<not> isConnected m then [(HandlerThis, Connect)] else [])
     @ (if has_key state ''selectedAddress'' \<and> field state ''selectedAddress'' \<noteq> selectedAddress self
        then [(Self, AccountsChanged [field state ''selectedAddress''])] else [])
     @ (if has_key state ''networkVersion'' \<and> field state ''networkVersion'' \<noteq> networkVersion self
        then [(Self, NetworkChanged (field state ''networkVersion''))] else [])"
  by (simp add: handler_def)

lemma handler_module:
  "fst (fst (handler state (m, self))) = m\<lparr>isConnected := True\<rparr>"
  by (simp add: handler_def)



lemma handler_rest:
  "publicConfigStore (snd (fst (handler state (m, self)))) = publicConfigStore self"
  "pending (snd (fst (handler state (m, self)))) = pending self"
  "promises (snd (fst (handler state (m, self)))) = promises self"
  by (simp_all add: handler_def)

lemma deliver_events:
  "snd (deliver state (m, self)) =
     (if \<not> isConnected m then [(HandlerThis, Connect)] else [])
     @ (if has_key state ''selectedAddress'' \<and> field state ''selectedAddress'' \<noteq> selectedAddress self
        then [(Self, AccountsChanged [field state ''selectedAddress''])] else [])
     @ (if has_key state ''networkVersion'' \<and> field state ''networkVersion'' \<noteq> networkVersion self
        then [(Self, NetworkChanged (field state ''networkVersion''))] else [])"
  by (simp add: deliver_def handler_events)

lemma deliver_module:
  "fst (fst (deliver state (m, self))) = m\<lparr>isConnected := True\<rparr>"
  by (simp add: deliver_def handler_module)



lemma deliver_store:
  "publicConfigStore (snd (fst (deliver state (m, self)))) = state"
  by (simp add: deliver_def handler_rest)


lemma deliver_connected: "isConnected (fst (fst (deliver s w)))"
  by (cases w) (simp add: deliver_module)


lemma deliver_not_on_self: "(Self, Connect) \<notin> set (snd (deliver s w))"
  by (cases w) (auto simp: deliver_events)

lemma run_snapshots_Cons:
  "snd (run_snapshots (s # ss) w) = snd (deliver s w) @ snd (run_snapshots ss (fst (deliver s w)))"
  by (simp split: prod.splits)

lemma run_snapshots_not_on_self: "(Self, Connect) \<notin> set (snd (run_snapshots ss w))"
proof (induction ss arbitrary: w)
  case Nil
  then show ?case by simp
next
  case (Cons s ss)
  show ?case
    using deliver_not_on_self [of s w] Cons.IH [of "fst (deliver s w)"]
    by (simp only: run_snapshots_Cons set_append Un_iff) simp
qed

lemma provider_never_emits_connect:
  "Connect \<notin> set (emitted_on Self (snd (run_snapshots ss w)))"
  using run_snapshots_not_on_self [of ss w] by (auto simp: emitted_on_def)

section \<open>What a call does\<close>

lemma sendAsync_other:
  "rpc_method payload \<noteq> ''eth_requestAccounts'' \<Longrightarrow>
   sendAsync payload cb (m, self) = ((m, self\<lparr>pending := pending self @ [(payload, cb)]\<rparr>), None)"
  by (simp add: rpcEngine_handle_def)

lemma sendAsync_requestAccounts:
  "rpc_method payload = ''eth_requestAccounts'' \<Longrightarrow>
   sendAsync payload cb w = (fst (enable [] w), Some (snd (enable [] w)))"
  by (simp split: prod.splits)

lemma enable_eq:
  "enable opts (m, self) =
     ((m, self\<lparr>promises := promises self @ [Pending],
              pending := pending self @ [(xtend opts defaultOpts, EnableCb (length (promises self)))]\<rparr>),
      length (promises self))"
  by (simp add: rpcEngine_handle_def xtend_def defaultOpts_def Let_def)

declare sendAsync.simps [simp del] enable.simps [simp del]


lemma truthy_not_absent: "truthy (get_prop res k) \<Longrightarrow> res \<noteq> P Undefined \<and> res \<noteq> P Null"
  by (cases res) auto

lemma enable_callback_error:
  assumes "\<not> truthy err" "truthy (get_prop res ''error'')"
  shows "enable_callback p err res (m, self) =
     ((m, settle p (Rejected (if get_prop (get_prop res ''error'') ''code'' = P (Num 5)
                              then get_prop res ''error''
                              else Obj [(''message'', get_prop res ''error''), (''code'', P (Num 4001))]))
            self), None)"
  using assms truthy_not_absent [OF assms(2)] by (simp add: enable_callback_def)


lemma obj_not_inside: "Obj [(k, e), kv] \<noteq> e"
proof
  assume "Obj [(k, e), kv] = e"
  then have "size (Obj [(k, e), kv]) = size e" by simp
  then show False by simp
qed

lemma sublist_mid: "sublist xs (a @ xs @ b)"
  by (auto simp: sublist_def)

lemma run_snapshots_store:
  "publicConfigStore (snd (fst (run_snapshots ss w))) =
     (if ss = [] then publicConfigStore (snd w) else last ss)"
proof (induction ss arbitrary: w)
  case Nil
  then show ?case by simp
next
  case (Cons s ss)
  obtain m self where w: "w = (m, self)" by (cases w)
  have "fst (run_snapshots (s # ss) w) = fst (run_snapshots ss (fst (deliver s w)))"
    by (simp split: prod.splits)
  then show ?case
    using Cons.IH [of "fst (deliver s w)"] w by (simp add: deliver_store)
qed

lemma sendSync_eth_accounts:
  "rpc_method payload = ''eth_accounts'' \<Longrightarrow>
   sendSync payload w =
     Inr (respond payload
            (if truthy_prim (field (publicConfigStore (snd w)) ''selectedAddress'')
             then Arr [P (field (publicConfigStore (snd w)) ''selectedAddress'')] else Arr []),
          w)"
  by (cases w) (simp add: sendSync_def)

lemma data_listener_text: "data_listener error (JsonText v) = []"
  by (simp add: data_listener_def)

lemma receive_events:
  "snd (receive message w) = [] \<or> snd (receive message w) = [(Self, Data Null message)]"
  by (cases w; cases message) (simp_all add: receive_def emit_data_def data_listener_text)

section \<open>Several providers\<close>






section \<open>Disconnection\<close>

text \<open>
  Claim C1, as the code has it. When a stream ends or errors, \<open>logStreamDisconnectWarning\<close>
  sets the module-level variable \<open>isConnected\<close> to false and emits \<open>error\<close> with the warning
  exactly when an \<open>error\<close> listener is registered. It completes no call: the provider, with
  its pending calls and its promises, is as it was.
\<close>

theorem disconnect_leaves_calls_pending:
  "logStreamDisconnectWarning remoteLabel err (m, self) =
     ((m\<lparr>isConnected := False\<rparr>, self),
      if 0 < errorListeners self
      then [(Self, ErrorEvent (''MetamaskInpageProvider - lost connection to '' @ remoteLabel
                               @ (case err of None \<Rightarrow> [] | Some stack \<Rightarrow> CHR 0x0A # stack)))]
      else [])
   \<and> pending (snd (fst (logStreamDisconnectWarning remoteLabel err (m, self)))) = pending self
   \<and> promises (snd (fst (logStreamDisconnectWarning remoteLabel err (m, self)))) = promises self"
  by (simp add: logStreamDisconnectWarning_def)

theorem disconnect_leaves_calls_pending_witness:
  "snd (logStreamDisconnectWarning ''MetaMask'' None
      (module_init, MetamaskInpageProvider\<lparr>errorListeners := 1, pending := [(call_a, AppCb 0)]\<rparr>))
     = [(Self, ErrorEvent ''MetamaskInpageProvider - lost connection to MetaMask'')]
   \<and> pending (snd (fst (logStreamDisconnectWarning ''MetaMask'' None
      (module_init, MetamaskInpageProvider\<lparr>errorListeners := 1, pending := [(call_a, AppCb 0)]\<rparr>))))
     = [(call_a, AppCb 0)]"
  using disconnect_leaves_calls_pending [of "''MetaMask''" None module_init
      "MetamaskInpageProvider\<lparr>errorListeners := 1, pending := [(call_a, AppCb 0)]\<rparr>"]
  by simp

text \<open>
  Claim C1 as stated fails. Two calls are pending when the stream ends: both are pending
  afterwards, and nothing is emitted. The promise of a pending \<open>enable\<close> stays unsettled.
\<close>

theorem disconnect_settles_no_call:
  "pending (snd (fst (logStreamDisconnectWarning ''MetaMask'' None
      (fst (sendAsync call_b (AppCb 1)
        (fst (sendAsync call_a (AppCb 0) (module_init, MetamaskInpageProvider))))))))
     = [(call_a, AppCb 0), (call_b, AppCb 1)]
   \<and> snd (logStreamDisconnectWarning ''MetaMask'' None
      (fst (sendAsync call_b (AppCb 1)
        (fst (sendAsync call_a (AppCb 0) (module_init, MetamaskInpageProvider)))))) = []
   \<and> promises (snd (fst (logStreamDisconnectWarning ''MetaMask'' None
      (fst (enable [] (module_init, MetamaskInpageProvider)))))) = [Pending]"
  by (simp add: logStreamDisconnectWarning_def call_a_def call_b_def sendAsync_other enable_eq
      MetamaskInpageProvider_def module_init_def)

section \<open>The connect event\<close>

text \<open>
  Claim C2, at the input where the code departs from it. A new provider of a new process
  receives its first snapshot, \<open>{selectedAddress: '0xabc'}\<close>. The handler calls
  \<open>this.emit('connect')\<close>, and \<open>this\<close> of the function given to \<open>subscribe\<close> is not the
  provider: \<open>connect\<close> is emitted on that object, and the events emitted on the provider
  are \<open>accountsChanged\<close> alone, with no \<open>connect\<close> among them.
\<close>

theorem first_snapshot_connect_not_on_provider:
  "snd (deliver [(''selectedAddress'', Str ''0xabc'')] (module_init, MetamaskInpageProvider))
     = [(HandlerThis, Connect), (Self, AccountsChanged [Str ''0xabc''])]
   \<and> emitted_on Self
        (snd (deliver [(''selectedAddress'', Str ''0xabc'')] (module_init, MetamaskInpageProvider)))
     = [AccountsChanged [Str ''0xabc'']]"
  by (simp add: deliver_def handler_def module_init_def MetamaskInpageProvider_def
      emitted_on_def has_key_def field_def)

section \<open>Change events\<close>


section \<open>The synchronous facade\<close>

text \<open>
  Claim C4, as the code has it. \<open>_sendSync\<close> of \<open>eth_accounts\<close> reads the store, and the
  store holds the snapshot that arrived last. On a new provider the result is the empty
  list. After snapshots have arrived it is decided by the last one alone: the list of its
  one \<open>selectedAddress\<close> when it carries one, and the empty list when it does not, whatever
  the snapshots before it carried. The call changes nothing.
\<close>

theorem eth_accounts_reads_latest_snapshot:
  "rpc_method payload = ''eth_accounts'' \<Longrightarrow>
   (\<exists>r. sendSync payload (m, MetamaskInpageProvider) = Inr (r, (m, MetamaskInpageProvider))
       \<and> result r = Arr [])
   \<and> (\<exists>r. sendSync payload (fst (run_snapshots (ss @ [s]) w))
            = Inr (r, fst (run_snapshots (ss @ [s]) w))
       \<and> result r = (if truthy_prim (field s ''selectedAddress'')
                     then Arr [P (field s ''selectedAddress'')] else Arr []))"
proof -
  assume p: "rpc_method payload = ''eth_accounts''"
  have 1: "\<exists>r. sendSync payload (m, MetamaskInpageProvider) = Inr (r, (m, MetamaskInpageProvider))
       \<and> result r = Arr []"
    using p by (simp add: sendSync_eth_accounts respond_def MetamaskInpageProvider_def field_def)
  have "publicConfigStore (snd (fst (run_snapshots (ss @ [s]) w))) = s"
    by (simp add: run_snapshots_store)
  then have 2: "\<exists>r. sendSync payload (fst (run_snapshots (ss @ [s]) w))
            = Inr (r, fst (run_snapshots (ss @ [s]) w))
       \<and> result r = (if truthy_prim (field s ''selectedAddress'')
                     then Arr [P (field s ''selectedAddress'')] else Arr [])"
    using p by (simp add: sendSync_eth_accounts respond_def)
  show ?thesis using 1 2 by (rule conjI)
qed

theorem eth_accounts_reads_latest_snapshot_witness:
  "rpc_method \<lparr>rpc_method = ''eth_accounts'', params = Arr [], extra = []\<rparr> = ''eth_accounts''
   \<and> (\<exists>r. sendSync \<lparr>rpc_method = ''eth_accounts'', params = Arr [], extra = []\<rparr>
              (module_init, MetamaskInpageProvider) = Inr (r, (module_init, MetamaskInpageProvider))
          \<and> result r = Arr [])
   \<and> (\<exists>r. sendSync \<lparr>rpc_method = ''eth_accounts'', params = Arr [], extra = []\<rparr>
              (fst (run_snapshots
                      [[(''networkVersion'', Str ''1'')], [(''selectedAddress'', Str ''0xabc'')]]
                      (module_init, MetamaskInpageProvider)))
            = Inr (r, fst (run_snapshots
                      [[(''networkVersion'', Str ''1'')], [(''selectedAddress'', Str ''0xabc'')]]
                      (module_init, MetamaskInpageProvider)))
          \<and> result r = Arr [P (Str ''0xabc'')])"
  using eth_accounts_reads_latest_snapshot
    [of "\<lparr>rpc_method = ''eth_accounts'', params = Arr [], extra = []\<rparr>" module_init
        "[[(''networkVersion'', Str ''1'')]]" "[(''selectedAddress'', Str ''0xabc'')]"
        "(module_init, MetamaskInpageProvider)"]
  by (simp add: field_def)

text \<open>
  Claim C4 as stated fails. A snapshot with \<open>selectedAddress: '0xabc'\<close> has been received,
  and after it a snapshot with \<open>networkVersion\<close> only: \<open>eth_accounts\<close> gives the empty list,
  while the mirrored \<open>selectedAddress\<close> of the provider is still \<open>0xabc\<close>.
\<close>

theorem eth_accounts_empty_after_later_snapshot:
  "sendSync \<lparr>rpc_method = ''eth_accounts'', params = Arr [], extra = []\<rparr>
     (fst (run_snapshots
             [[(''selectedAddress'', Str ''0xabc'')], [(''networkVersion'', Str ''1'')]]
             (module_init, MetamaskInpageProvider)))
   = Inr (\<lparr>res_id = P Undefined, res_jsonrpc = P Undefined, result = Arr []\<rparr>,
          fst (run_snapshots
             [[(''selectedAddress'', Str ''0xabc'')], [(''networkVersion'', Str ''1'')]]
             (module_init, MetamaskInpageProvider)))
   \<and> selectedAddress (snd (fst (run_snapshots
             [[(''selectedAddress'', Str ''0xabc'')], [(''networkVersion'', Str ''1'')]]
             (module_init, MetamaskInpageProvider)))) = Str ''0xabc''"
  by (simp add: sendSync_def respond_def deliver_def handler_def has_key_def field_def
      MetamaskInpageProvider_def module_init_def)

text \<open>
  Claim C5. For a method that is none of \<open>eth_accounts\<close>, \<open>eth_coinbase\<close>,
  \<open>eth_uninstallFilter\<close> and \<open>net_version\<close>, \<open>_sendSync\<close> throws an \<open>Error\<close> (it returns
  nothing, so no promise either); the message contains the name of the method and the
  address of the page that explains what to do.
\<close>

theorem sendSync_unsupported_throws:
  assumes "rpc_method payload \<notin> {''eth_accounts'', ''eth_coinbase'', ''eth_uninstallFilter'', ''net_version''}"
  shows "\<exists>msg. sendSync payload w = Inl (Error msg)
           \<and> sublist (rpc_method payload) msg \<and> sublist link msg"
proof -
  obtain m self where w: "w = (m, self)" by (cases w)
  let ?msg = "''The MetaMask Web3 object does not support synchronous methods like ''
                   @ rpc_method payload @ '' without a callback parameter. See '' @ link
                   @ '' for details.''"
  have "sendSync payload w = Inl (Error ?msg)"
    using assms w by (simp add: sendSync_def)
  moreover have "sublist (rpc_method payload) ?msg"
    by (rule sublist_mid)
  moreover have "sublist link ?msg"
    using sublist_mid [of link "''The MetaMask Web3 object does not support synchronous methods like ''
                   @ rpc_method payload @ '' without a callback parameter. See ''" "'' for details.''"]
    by simp
  ultimately show ?thesis by blast
qed

theorem sendSync_unsupported_throws_witness:
  "''eth_call'' \<notin> {''eth_accounts'', ''eth_coinbase'', ''eth_uninstallFilter'', ''net_version''}
   \<and> (\<exists>msg. sendSync \<lparr>rpc_method = ''eth_call'', params = Arr [], extra = []\<rparr>
               (module_init, MetamaskInpageProvider) = Inl (Error msg)
           \<and> sublist ''eth_call'' msg \<and> sublist link msg)"
  using sendSync_unsupported_throws
    [of "\<lparr>rpc_method = ''eth_call'', params = Arr [], extra = []\<rparr>"
        "(module_init, MetamaskInpageProvider)"]
  by simp

section \<open>The access request\<close>

text \<open>
  Claim C6. \<open>enable\<close> makes a \<open>wallet_requestPermissions\<close> call and returns a pending
  promise; \<open>sendAsync\<close> of \<open>eth_requestAccounts\<close> is \<open>enable()\<close>. When the callback of that
  call gets no system error and a response with an error, the promise is rejected: with
  the error object of the response itself when its \<open>code\<close> is 5, and otherwise with the
  object \<open>{message: res.error, code: 4001}\<close>, which is not the error of the response.
\<close>

theorem enable_rejection:
  assumes "\<not> truthy err" and "truthy (get_prop res ''error'')"
  shows "rpc_method (fst (last (pending (snd (fst (enable opts (m, self))))))) = ''wallet_requestPermissions''
   \<and> snd (last (pending (snd (fst (enable opts (m, self)))))) = EnableCb (snd (enable opts (m, self)))
   \<and> promises (snd (fst (enable opts (m, self)))) ! snd (enable opts (m, self)) = Pending
   \<and> promises (snd (fst (invoke (EnableCb (snd (enable opts (m, self)))) err res
                              (fst (enable opts (m, self))))))
       ! snd (enable opts (m, self))
     = (if get_prop (get_prop res ''error'') ''code'' = P (Num 5)
        then Rejected (get_prop res ''error'')
        else Rejected (Obj [(''message'', get_prop res ''error''), (''code'', P (Num 4001))]))
   \<and> Obj [(''message'', get_prop res ''error''), (''code'', P (Num 4001))] \<noteq> get_prop res ''error''
   \<and> sendAsync \<lparr>rpc_method = ''eth_requestAccounts'', params = ps, extra = ex\<rparr> cb (m, self)
     = (fst (enable [] (m, self)), Some (snd (enable [] (m, self))))"
  using assms
  by (simp add: sendAsync_requestAccounts enable_eq enable_callback_error settle_def xtend_def
      defaultOpts_def obj_not_inside)

theorem enable_rejection_witness:
  "\<not> truthy (P Null) \<and> truthy (get_prop user_rejected ''error'')
   \<and> promises (snd (fst (invoke (EnableCb 0) (P Null) user_rejected
        (fst (enable [] (module_init, MetamaskInpageProvider)))))) ! 0
     = Rejected (Obj [(''code'', P (Num 5)), (''message'', P (Str ''User rejected''))])"
  using enable_rejection [of "P Null" user_rejected "[]" module_init MetamaskInpageProvider]
  by (simp add: user_rejected_def enable_eq MetamaskInpageProvider_def)

text \<open>
  Claim C7. \<open>_sendSync\<close> of \<open>eth_uninstallFilter\<close> returns a response with the result
  \<open>true\<close>, and hands one call with the same payload, and the callback \<open>noop\<close>, to the
  engine; nothing else changes.
\<close>

theorem sendSync_uninstallFilter:
  "rpc_method payload = ''eth_uninstallFilter'' \<Longrightarrow>
   sendSync payload (m, self) =
     Inr (respond payload (P (Bool True)),
          (m, self\<lparr>pending := pending self @ [(payload, Noop)]\<rparr>))
   \<and> result (respond payload (P (Bool True))) = P (Bool True)"
  by (simp add: sendSync_def sendAsync_other respond_def)

theorem sendSync_uninstallFilter_witness:
  "sendSync \<lparr>rpc_method = ''eth_uninstallFilter'', params = Arr [P (Str ''0x1'')],
              extra = [(''id'', P (Num 7)), (''jsonrpc'', P (Str ''2.0''))]\<rparr>
     (module_init, MetamaskInpageProvider)
   = Inr (\<lparr>res_id = P (Num 7), res_jsonrpc = P (Str ''2.0''), result = P (Bool True)\<rparr>,
          (module_init, MetamaskInpageProvider
             \<lparr>pending := [(\<lparr>rpc_method = ''eth_uninstallFilter'', params = Arr [P (Str ''0x1'')],
                             extra = [(''id'', P (Num 7)), (''jsonrpc'', P (Str ''2.0''))]\<rparr>, Noop)]\<rparr>))"
  using sendSync_uninstallFilter
    [of "\<lparr>rpc_method = ''eth_uninstallFilter'', params = Arr [P (Str ''0x1'')],
           extra = [(''id'', P (Num 7)), (''jsonrpc'', P (Str ''2.0''))]\<rparr>"
        module_init MetamaskInpageProvider]
  by (simp add: respond_def MetamaskInpageProvider_def)

section \<open>Notifications and cleared addresses\<close>

text \<open>
  Claim C8, at the input where the code departs from it. A provider on which \<open>_subscribe\<close>
  has been called receives the JSON text of an \<open>eth_subscription\<close> push with the result
  \<open>0xabc\<close>. \<open>receive\<close> emits \<open>data\<close> with the string it was given; the listener of
  \<open>_subscribe\<close> reads \<open>method\<close> of that string, which is \<open>undefined\<close>, and emits no
  \<open>notification\<close>.
\<close>

theorem receive_push_emits_no_notification:
  "snd (receive subscription_push (subscribe (module_init, MetamaskInpageProvider)))
   = [(Self, Data Null subscription_push)]"
  by (simp add: receive_def subscribe_def subscription_push_def emit_data_def data_listener_def
      MetamaskInpageProvider_def)

text \<open>
  Claim C9, at the input where the code departs from it. The mirrored address is \<open>0xabc\<close>
  and a snapshot clears it (\<open>selectedAddress: undefined\<close>): \<open>accountsChanged\<close> carries the
  one-element list \<open>[undefined]\<close>, not the empty list. The same holds for \<open>null\<close>.
\<close>

theorem accountsChanged_cleared_has_one_element:
  "snd (deliver [(''selectedAddress'', Undefined)]
         (fst (deliver [(''selectedAddress'', Str ''0xabc'')] (module_init, MetamaskInpageProvider))))
     = [(Self, AccountsChanged [Undefined])]
   \<and> snd (deliver [(''selectedAddress'', Null)]
         (fst (deliver [(''selectedAddress'', Str ''0xabc'')] (module_init, MetamaskInpageProvider))))
     = [(Self, AccountsChanged [Null])]"
  by (simp add: deliver_def handler_def has_key_def field_def MetamaskInpageProvider_def
      module_init_def)

section \<open>The flags are shared\<close>




end
